theory Spec2Isabelle
  imports Complex_Main "HOL-Library.Sublist"
begin

section \<open>Strings of the platform\<close>

text \<open>
  The component \<open>WebhookTester\<close> (src/components/WebhookTester.tsx) reads header values
  with \<open>res.headers.get\<close>. Header names and values are byte strings: every code unit is
  below 256, so a header value is a \<open>string\<close> (a list of 8-bit characters) here.

  \<open>String.prototype.includes\<close>: \<open>s.includes(sub)\<close> holds when \<open>sub\<close> occurs in \<open>s\<close> as a
  contiguous run of code units, at any position; the comparison is case-sensitive.
\<close>

fun includes_str :: "string \<Rightarrow> string \<Rightarrow> bool" where
  "includes_str [] sub = (sub = [])"
| "includes_str (c # cs) sub = (prefix sub (c # cs) \<or> includes_str cs sub)"

subsection \<open>The regular expression of line 91\<close>

text \<open>
  \<open>disposition.match(/filename="?([^"]+)"?/)\<close> has no \<open>g\<close> flag: it returns the leftmost
  match, or \<open>null\<close>. \<open>match_here\<close> tries the pattern at the start of its argument, with the
  backtracking order of the pattern: the optional quote is greedy (taken first when it
  is there, left out on a retry), the group \<open>[^"]+\<close> takes the longest non-empty run of
  characters other than the double quote (0x22), and the last optional quote never fails.
  The result is the text of group 1 (\<open>match[1]\<close>).
\<close>

definition dquote :: char where
  "dquote = CHR 0x22"

definition group1 :: "string \<Rightarrow> string option" where
  "group1 s = (let g = takeWhile (\<lambda>c. c \<noteq> dquote) s in if g = [] then None else Some g)"

definition after_literal :: "string \<Rightarrow> string option" where
  "after_literal rest =
     (case rest of
        [] \<Rightarrow> group1 []
      | c # cs \<Rightarrow>
          if c = dquote then
            (case group1 cs of
               Some g \<Rightarrow> Some g
             | None \<Rightarrow> group1 (c # cs))
          else group1 (c # cs))"

definition match_here :: "string \<Rightarrow> string option" where
  "match_here s =
     (if prefix ''filename='' s then after_literal (drop (length ''filename='') s) else None)"

fun match_filename :: "string \<Rightarrow> string option" where
  "match_filename [] = match_here []"
| "match_filename (c # cs) =
     (case match_here (c # cs) of
        Some g \<Rightarrow> Some g
      | None \<Rightarrow> match_filename cs)"


section \<open>Data of the component\<close>

text \<open>A \<open>File\<close> of the platform, as far as the component reads it.\<close>

record File =
  file_name :: string
  file_size :: nat
  file_type :: string

text \<open>
  The argument of \<open>toast\<close>; \<open>variant\<close> is \<open>None\<close> where the call gives none.
\<close>

record toast_args =
  title :: string
  description :: string
  variant :: "string option"

text \<open>
  \<open>data: any\<close> of \<open>WebhookResponse\<close> holds what one of the three body readers resolved
  to: a \<open>Blob\<close> (\<open>'b\<close>), a parsed JSON value (\<open>'j\<close>) or a text (\<open>'t\<close>).
\<close>

datatype ('b, 'j, 't) body_data = DBlob 'b | DJson 'j | DText 't

record ('b, 'j, 't) WebhookResponse =
  status :: nat
  data :: "('b, 'j, 't) body_data"
  headers :: "string \<rightharpoonup> string"
  isFile :: bool
  fileName :: string
  contentType :: string

text \<open>
  The \<open>Response\<close> that \<open>fetch\<close> resolves to, as the handler observes it:
  \<open>res_headers_get name\<close> is \<open>res.headers.get(name)\<close> (\<open>None\<close> for \<open>null\<close>);
  \<open>res_headers_forEach\<close> lists the (key, value) pairs in the order in which
  \<open>res.headers.forEach\<close> calls its callback; \<open>res_blob\<close>, \<open>res_json\<close> and \<open>res_text\<close> are
  what \<open>await res.blob()\<close>, \<open>await res.json()\<close> and \<open>await res.text()\<close> give, \<open>None\<close> when
  the promise rejects (for \<open>res.json()\<close>: the body is not syntactically valid JSON).
\<close>

record ('b, 'j, 't) Response =
  res_status :: nat
  res_headers_get :: "string \<Rightarrow> string option"
  res_headers_forEach :: "(string \<times> string) list"
  res_blob :: "'b option"
  res_json :: "'j option"
  res_text :: "'t option"

text \<open>The React state of the component (the \<open>useState\<close> cells).\<close>

record ('b, 'j, 't) state =
  webhookUrl :: string
  selectedFile :: "File option"
  isLoading :: bool
  response :: "('b, 'j, 't) WebhookResponse option"
  isDragging :: bool

text \<open>
  What the handler does to the world, in program order: a toast, a state setter, the
  network call \<open>fetch(webhookUrl, {method: 'POST', body: formData})\<close> with the entries of
  the form data, a call of a body reader, \<open>console.error\<close>.
\<close>

datatype ('b, 'j, 't) event =
    ToastEv toast_args
  | SetIsLoading bool
  | FetchEv string "(string \<times> File) list"
  | ReadBlob
  | ReadJson
  | ReadText
  | SetResponse "('b, 'j, 't) WebhookResponse"
  | ConsoleError

section \<open>formatFileSize\<close>

text \<open>Decimal numerals of natural numbers.\<close>

definition digit_char :: "nat \<Rightarrow> char" where
  "digit_char d = ''0123456789'' ! (d mod 10)"

function show_nat :: "nat \<Rightarrow> string" where
  "show_nat n = (if n < 10 then [digit_char n] else show_nat (n div 10) @ [digit_char (n mod 10)])"
  by pat_completeness auto
termination
  by (relation "measure id") auto

declare show_nat.simps [simp del]

text \<open>
  \<open>Number.prototype.toFixed(2)\<close> on a non-negative number \<open>x\<close>: the decimal numeral, with
  exactly two fraction digits, of the integer \<open>n\<close> for which \<open>n / 100 - x\<close> is closest to
  zero, the larger \<open>n\<close> when two are equally close. Numbers are exact reals here: the
  rounding of IEEE doubles is not part of the model.
\<close>

definition toFixed2 :: "real \<Rightarrow> string" where
  "toFixed2 x =
     (let n = nat \<lfloor>x * 100 + 1 / 2\<rfloor>
      in show_nat (n div 100) @ ''.'' @ [digit_char (n mod 100 div 10), digit_char (n mod 10)])"

text \<open>
  \<open>parseFloat\<close> on a numeral \<open>digits.digits\<close>, the shape \<open>toFixed2\<close> produces.
\<close>

definition digit_val :: "char \<Rightarrow> nat" where
  "digit_val c = of_char c - 48"

definition digits_val :: "string \<Rightarrow> nat" where
  "digits_val ds = foldl (\<lambda>acc c. 10 * acc + digit_val c) 0 ds"

definition is_dot :: "char \<Rightarrow> bool" where
  "is_dot c = (c = CHR ''.'')"

definition parseFloat :: "string \<Rightarrow> real" where
  "parseFloat s =
     (let ip = takeWhile (\<lambda>c. \<not> is_dot c) s;
          fp = drop 1 (dropWhile (\<lambda>c. \<not> is_dot c) s)
      in real (digits_val ip) + real (digits_val fp) / 10 ^ length fp)"

text \<open>
  The conversion of a number to a string in \<open>number + ' ' + sizes[i]\<close>, for a
  non-negative number of at most two fraction digits (what \<open>parseFloat\<close> of a \<open>toFixed(2)\<close>
  numeral is): the shortest numeral, that is without trailing zeros and without the
  point when no fraction digit is left.
\<close>

definition number_to_string :: "real \<Rightarrow> string" where
  "number_to_string x =
     (let n = nat \<lfloor>x * 100\<rfloor>
      in show_nat (n div 100) @
         (if n mod 100 = 0 then []
          else ''.'' @ [digit_char (n mod 100 div 10)] @
               (if n mod 10 = 0 then [] else [digit_char (n mod 10)])))"

text \<open>
  \<open>formatFileSize\<close> (lines 50 to 56). \<open>bytes\<close> is \<open>selectedFile.size\<close>, a non-negative
  integer. \<open>Math.log\<close> is the natural logarithm and \<open>Math.floor\<close> the floor, on reals.
  \<open>sizes[i]\<close> beyond the last index is \<open>undefined\<close>, which the concatenation prints as
  the word \<open>undefined\<close>. The code computes in IEEE doubles: where the quotient of the
  two logarithms lies closer to an integer than a double resolves (sizes just below a
  high power of 1024, such as \<open>2 ^ 50 - 1\<close>), the code's index \<open>i\<close> can be one more than
  the index here.
\<close>

definition sizes :: "string list" where
  "sizes = [''Bytes'', ''KB'', ''MB'', ''GB'']"

definition formatFileSize :: "nat \<Rightarrow> string" where
  "formatFileSize bytes =
     (if bytes = 0 then ''0 Bytes''
      else
        let k = (1024 :: real);
            i = nat \<lfloor>ln (real bytes) / ln k\<rfloor>
        in number_to_string (parseFloat (toFixed2 (real bytes / k ^ i))) @ '' '' @
           (if i < length sizes then sizes ! i else ''undefined''))"

section \<open>sendWebhook\<close>

definition validation_toast :: toast_args where
  "validation_toast =
     \<lparr>title = ''Erro'',
      description = ''Por favor, preencha a URL e selecione um arquivo'',
      variant = Some ''destructive''\<rparr>"

definition error_toast :: toast_args where
  "error_toast =
     \<lparr>title = ''Erro'', description = ''Falha ao enviar webhook'',
      variant = Some ''destructive''\<rparr>"

definition success_toast :: "nat \<Rightarrow> toast_args" where
  "success_toast st =
     \<lparr>title = ''Sucesso!'', description = ''Webhook enviado - Status: '' @ show_nat st,
      variant = None\<rparr>"

text \<open>
  Line 78: \<open>res.headers.get('content-type') || ''\<close>. Both \<open>null\<close> and the empty string are
  falsy, so both give the empty string.
\<close>

definition contentType_of :: "string option \<Rightarrow> string" where
  "contentType_of h = (case h of None \<Rightarrow> [] | Some v \<Rightarrow> if v = [] then [] else v)"

text \<open>Lines 79 to 81.\<close>

definition isFile_of :: "string \<Rightarrow> bool" where
  "isFile_of ct =
     (includes_str ct ''application/'' \<and> \<not> includes_str ct ''json'' \<and> \<not> includes_str ct ''text'')"

text \<open>
  Lines 84 and 89 to 93: \<open>fileName\<close> starts as the empty string and is assigned only
  when the header \<open>content-disposition\<close> is there and not empty.
\<close>

definition fileName_of :: "string option \<Rightarrow> string" where
  "fileName_of disposition =
     (case disposition of
        None \<Rightarrow> []
      | Some d \<Rightarrow>
          if d = [] then []
          else (case match_filename d of Some g \<Rightarrow> g | None \<Rightarrow> ''download''))"

text \<open>
  Lines 86 to 98: the body reader chosen by the classification. The result is the
  readers called and, unless the awaited promise rejected (\<open>None\<close>), \<open>data\<close> and
  \<open>fileName\<close>.
\<close>

definition read_body ::
  "('b, 'j, 't) Response \<Rightarrow> string \<Rightarrow>
     ('b, 'j, 't) event list \<times> (('b, 'j, 't) body_data \<times> string) option" where
  "read_body res ct =
     (if isFile_of ct then
        (case res_blob res of
           None \<Rightarrow> ([ReadBlob], None)
         | Some blob \<Rightarrow>
             ([ReadBlob], Some (DBlob blob, fileName_of (res_headers_get res ''content-disposition''))))
      else if includes_str ct ''json'' then
        (case res_json res of
           None \<Rightarrow> ([ReadJson], None)
         | Some j \<Rightarrow> ([ReadJson], Some (DJson j, [])))
      else
        (case res_text res of
           None \<Rightarrow> ([ReadText], None)
         | Some t \<Rightarrow> ([ReadText], Some (DText t, []))))"

text \<open>
  Lines 100 to 103: \<open>headers[key] = value\<close> on an object created as \<open>{}\<close>. The keys of
  the object are compared exactly. The one key that is not stored is \<open>__proto__\<close>: the
  assignment reaches the setter of \<open>Object.prototype\<close>, which ignores a string.
\<close>

definition set_header :: "(string \<rightharpoonup> string) \<Rightarrow> string \<times> string \<Rightarrow> (string \<rightharpoonup> string)" where
  "set_header hs kv = (if fst kv = ''__proto__'' then hs else hs(fst kv \<mapsto> snd kv))"

definition collect_headers :: "(string \<times> string) list \<Rightarrow> (string \<rightharpoonup> string)" where
  "collect_headers kvs = foldl set_header Map.empty kvs"

text \<open>
  Lines 78 to 117, after \<open>fetch\<close> has resolved to \<open>res\<close>: the effects, and whether the
  block ran to its end (\<open>False\<close>: an awaited promise rejected and control went to
  \<open>catch\<close>).
\<close>

definition after_fetch :: "('b, 'j, 't) Response \<Rightarrow> ('b, 'j, 't) event list \<times> bool" where
  "after_fetch res =
     (let ct = contentType_of (res_headers_get res ''content-type'')
      in case read_body res ct of
           (evs, None) \<Rightarrow> (evs, False)
         | (evs, Some (d, fname)) \<Rightarrow>
             (evs @
              [SetResponse
                 \<lparr>status = res_status res, data = d,
                  headers = collect_headers (res_headers_forEach res),
                  isFile = isFile_of ct, fileName = fname, contentType = ct\<rparr>,
               ToastEv (success_toast (res_status res))],
              True))"

text \<open>Lines 118 to 124.\<close>

definition catch_block :: "('b, 'j, 't) event list" where
  "catch_block = [ToastEv error_toast, ConsoleError]"

text \<open>
  \<open>sendWebhook\<close> (lines 58 to 128). \<open>fetch url formData\<close> is what the platform's \<open>fetch\<close>
  resolves to, \<open>None\<close> when it rejects. The result is the sequence of effects of one
  complete run of the handler.
\<close>

definition sendWebhook ::
  "(string \<Rightarrow> (string \<times> File) list \<Rightarrow> ('b, 'j, 't) Response option) \<Rightarrow>
     ('b, 'j, 't) state \<Rightarrow> ('b, 'j, 't) event list" where
  "sendWebhook fetch s =
     (if webhookUrl s = [] then [ToastEv validation_toast]
      else
        (case selectedFile s of
           None \<Rightarrow> [ToastEv validation_toast]
         | Some file \<Rightarrow>
             let formData = [(''file'', file)];
                 tried = (case fetch (webhookUrl s) formData of
                            None \<Rightarrow> ([], False)
                          | Some res \<Rightarrow> after_fetch res)
             in [SetIsLoading True, FetchEv (webhookUrl s) formData] @ fst tried @
                (if snd tried then [] else catch_block) @ [SetIsLoading False]))"

text \<open>The state setters among the effects, applied to the state.\<close>

fun apply_event :: "('b, 'j, 't) state \<Rightarrow> ('b, 'j, 't) event \<Rightarrow> ('b, 'j, 't) state" where
  "apply_event s (SetIsLoading b) = s\<lparr>isLoading := b\<rparr>"
| "apply_event s (SetResponse r) = s\<lparr>response := Some r\<rparr>"
| "apply_event s (ToastEv t) = s"
| "apply_event s (FetchEv u fd) = s"
| "apply_event s ReadBlob = s"
| "apply_event s ReadJson = s"
| "apply_event s ReadText = s"
| "apply_event s ConsoleError = s"

definition state_after ::
  "(string \<Rightarrow> (string \<times> File) list \<Rightarrow> ('b, 'j, 't) Response option) \<Rightarrow>
     ('b, 'j, 't) state \<Rightarrow> ('b, 'j, 't) state" where
  "state_after fetch s = foldl apply_event s (sendWebhook fetch s)"




section \<open>Example runs\<close>

text \<open>
  Concrete inputs at which the theorems below are instantiated. Blobs, JSON values and
  texts are all written as strings here.
\<close>

definition file0 :: File where
  "file0 = \<lparr>file_name = ''a.csv'', file_size = 1536, file_type = ''text/csv''\<rparr>"

definition state0 :: "(string, string, string) state" where
  "state0 =
     \<lparr>webhookUrl = ''https://example.org/hook'', selectedFile = Some file0,
      isLoading = False, response = None, isDragging = False\<rparr>"

definition state_no_url :: "(string, string, string) state" where
  "state_no_url = state0\<lparr>webhookUrl := []\<rparr>"

definition fetch_resolves ::
  "(string, string, string) Response \<Rightarrow> string \<Rightarrow> (string \<times> File) list \<Rightarrow>
     (string, string, string) Response option" where
  "fetch_resolves res url formData = Some res"

definition fetch_rejects ::
  "string \<Rightarrow> (string \<times> File) list \<Rightarrow> (string, string, string) Response option" where
  "fetch_rejects url formData = None"

definition res_pdf :: "(string, string, string) Response" where
  "res_pdf =
     \<lparr>res_status = 200,
      res_headers_get = map_of
        [(''content-disposition'', ''attachment; filename='' @ [dquote] @ ''report.pdf'' @ [dquote]),
         (''content-type'', ''application/pdf'')],
      res_headers_forEach =
        [(''content-disposition'', ''attachment; filename='' @ [dquote] @ ''report.pdf'' @ [dquote]),
         (''content-type'', ''application/pdf'')],
      res_blob = Some ''%PDF-1.7'', res_json = None, res_text = Some ''%PDF-1.7''\<rparr>"

definition res_pdf_plain :: "(string, string, string) Response" where
  "res_pdf_plain =
     \<lparr>res_status = 200,
      res_headers_get = map_of [(''content-type'', ''application/pdf'')],
      res_headers_forEach = [(''content-type'', ''application/pdf'')],
      res_blob = Some ''%PDF-1.7'', res_json = None, res_text = Some ''%PDF-1.7''\<rparr>"

definition res_related :: "(string, string, string) Response" where
  "res_related =
     \<lparr>res_status = 200,
      res_headers_get = map_of [(''content-type'', ''multipart/related; type=application/pdf'')],
      res_headers_forEach = [(''content-type'', ''multipart/related; type=application/pdf'')],
      res_blob = Some ''--b--'', res_json = None, res_text = Some ''--b--''\<rparr>"

definition res_bad_json :: "(string, string, string) Response" where
  "res_bad_json =
     \<lparr>res_status = 200,
      res_headers_get = map_of [(''content-type'', ''application/json'')],
      res_headers_forEach = [(''content-type'', ''application/json'')],
      res_blob = Some ''{oops'', res_json = None, res_text = Some ''{oops''\<rparr>"

definition res_no_type :: "(string, string, string) Response" where
  "res_no_type =
     \<lparr>res_status = 204, res_headers_get = map_of [], res_headers_forEach = [],
      res_blob = Some ''hello'', res_json = None, res_text = Some ''hello''\<rparr>"



text \<open>The result that the run on \<open>res_pdf\<close> stores.\<close>

definition result_pdf :: "(string, string, string) WebhookResponse" where
  "result_pdf =
     \<lparr>status = 200, data = DBlob ''%PDF-1.7'',
      headers = collect_headers (res_headers_forEach res_pdf),
      isFile = True, fileName = ''report.pdf'', contentType = ''application/pdf''\<rparr>"

text \<open>A state that shows the result of an earlier submission.\<close>

definition state_shown :: "(string, string, string) state" where
  "state_shown =
     state0\<lparr>response :=
       Some \<lparr>status = 200, data = DText ''earlier'', headers = Map.empty, isFile = False,
             fileName = [], contentType = ''text/plain''\<rparr>\<rparr>"



text \<open>
  Header names compared without regard to the case of ASCII letters, as the platform
  compares them; used to state what a case-insensitive header mapping would give.
\<close>

definition ascii_lower :: "char \<Rightarrow> char" where
  "ascii_lower c =
     (case map_of (zip ''ABCDEFGHIJKLMNOPQRSTUVWXYZ'' ''abcdefghijklmnopqrstuvwxyz'') c of
        None \<Rightarrow> c
      | Some l \<Rightarrow> l)"

definition same_name :: "string \<Rightarrow> string \<Rightarrow> bool" where
  "same_name a b = (map ascii_lower a = map ascii_lower b)"

text \<open>The header of the shown result under a given key.\<close>

definition shown_header :: "('b, 'j, 't) state \<Rightarrow> string \<Rightarrow> string option" where
  "shown_header s k = (case response s of None \<Rightarrow> None | Some r \<Rightarrow> headers r k)"

section \<open>Properties of the string and header functions\<close>


lemma prefix_includes_str: "prefix sub s \<Longrightarrow> includes_str s sub"
  by (cases s) (auto)

lemma floor_log_1024:
  assumes "1024 ^ i \<le> b" and "b < 1024 ^ Suc i"
  shows "nat \<lfloor>ln (real b) / ln 1024\<rfloor> = i"
proof -
  have "0 < b" using assms(1) by (cases "b = 0") auto
  then show ?thesis
    using floor_log_nat_eq_powr_iff[of 1024 b i] assms by (simp add: log_def)
qed

lemma foldl_set_header:
  "foldl set_header m kvs k =
     (if k = ''__proto__'' then m k
      else (case map_of (rev kvs) k of Some v \<Rightarrow> Some v | None \<Rightarrow> m k))"
proof (induction kvs arbitrary: m)
  case Nil
  then show ?case by simp
next
  case (Cons kv kvs)
  have "foldl set_header m (kv # kvs) k = foldl set_header (set_header m kv) kvs k"
    by simp
  also have "\<dots> =
     (if k = ''__proto__'' then set_header m kv k
      else (case map_of (rev kvs) k of Some v \<Rightarrow> Some v | None \<Rightarrow> set_header m kv k))"
    by (rule Cons.IH)
  also have "\<dots> =
     (if k = ''__proto__'' then m k
      else (case map_of (rev (kv # kvs)) k of Some v \<Rightarrow> Some v | None \<Rightarrow> m k))"
    by (cases kv) (auto simp: set_header_def map_add_def split: option.splits)
  finally show ?case .
qed

lemma collect_headers_last:
  assumes "kvs = xs @ [(k, v)] @ ys" and "k \<notin> fst ` set ys" and "k \<noteq> ''__proto__''"
  shows "collect_headers kvs k = Some v"
proof -
  have "map_of (rev ys) k = None"
    using assms(2) by (simp add: map_of_eq_None_iff)
  then have "map_of (rev kvs) k = Some v"
    using assms(1) by (simp add: map_add_def)
  then show ?thesis
    using assms(3) by (simp add: collect_headers_def foldl_set_header)
qed

lemma dom_collect_headers:
  "dom (collect_headers kvs) = fst ` set kvs - {''__proto__''}"
proof -
  have none: "map_of (rev kvs) k = None \<longleftrightarrow> k \<notin> fst ` set kvs" for k
    by (simp add: map_of_eq_None_iff)
  have "k \<in> dom (collect_headers kvs) \<longleftrightarrow> k \<in> fst ` set kvs - {''__proto__''}" for k
  proof (cases "map_of (rev kvs) k")
    case None
    then show ?thesis
      using none[of k] by (simp add: collect_headers_def foldl_set_header dom_def)
  next
    case (Some v)
    then have "k \<in> fst ` set kvs" using none[of k] by simp
    then show ?thesis
      using Some by (simp add: collect_headers_def foldl_set_header dom_def)
  qed
  then show ?thesis by blast
qed

















section \<open>The runs of sendWebhook\<close>

lemma sendWebhook_invalid:
  assumes "webhookUrl s = [] \<or> selectedFile s = None"
  shows "sendWebhook fetch s = [ToastEv validation_toast]"
  using assms by (auto simp: sendWebhook_def)

lemma sendWebhook_rejected:
  assumes "webhookUrl s \<noteq> []" and "selectedFile s = Some file"
    and "fetch (webhookUrl s) [(''file'', file)] = None"
  shows "sendWebhook fetch s =
     [SetIsLoading True, FetchEv (webhookUrl s) [(''file'', file)],
      ToastEv error_toast, ConsoleError, SetIsLoading False]"
  using assms by (simp add: sendWebhook_def catch_block_def)

lemma sendWebhook_resolved:
  assumes "webhookUrl s \<noteq> []" and "selectedFile s = Some file"
    and "fetch (webhookUrl s) [(''file'', file)] = Some res"
  shows "sendWebhook fetch s =
     [SetIsLoading True, FetchEv (webhookUrl s) [(''file'', file)]] @ fst (after_fetch res) @
     (if snd (after_fetch res) then [] else catch_block) @ [SetIsLoading False]"
  using assms by (simp add: sendWebhook_def)

lemma after_fetch_body:
  assumes "ct = contentType_of (res_headers_get res ''content-type'')"
    and "read_body res ct = (evs, Some (d, fname))"
  shows "after_fetch res =
     (evs @
      [SetResponse
         \<lparr>status = res_status res, data = d,
          headers = collect_headers (res_headers_forEach res),
          isFile = isFile_of ct, fileName = fname, contentType = ct\<rparr>,
       ToastEv (success_toast (res_status res))],
      True)"
  using assms by (simp add: after_fetch_def Let_def)

lemma after_fetch_thrown:
  assumes "ct = contentType_of (res_headers_get res ''content-type'')"
    and "read_body res ct = (evs, None)"
  shows "after_fetch res = (evs, False)"
  using assms by (simp add: after_fetch_def Let_def)

lemma read_body_readers:
  "fst (read_body res ct) =
     (if isFile_of ct then [ReadBlob]
      else if includes_str ct ''json'' then [ReadJson] else [ReadText])"
  by (simp add: read_body_def split: option.splits)

lemma read_body_result:
  "snd (read_body res ct) =
     (if isFile_of ct then
        map_option (\<lambda>b. (DBlob b, fileName_of (res_headers_get res ''content-disposition'')))
          (res_blob res)
      else if includes_str ct ''json'' then map_option (\<lambda>j. (DJson j, [])) (res_json res)
      else map_option (\<lambda>t. (DText t, [])) (res_text res))"
  by (simp add: read_body_def split: option.splits)

lemma stored_result:
  assumes "webhookUrl s \<noteq> []" and "selectedFile s = Some file"
    and "fetch (webhookUrl s) [(''file'', file)] = Some res"
    and "ct = contentType_of (res_headers_get res ''content-type'')"
    and "SetResponse r \<in> set (sendWebhook fetch s)"
  shows "snd (read_body res ct) = Some (data r, fileName r) \<and>
     r = \<lparr>status = res_status res, data = data r,
          headers = collect_headers (res_headers_forEach res),
          isFile = isFile_of ct, fileName = fileName r, contentType = ct\<rparr>"
proof -
  obtain evs y where rb: "read_body res ct = (evs, y)"
    by (cases "read_body res ct") auto
  have evs: "SetResponse r \<notin> set evs"
    using read_body_readers[of res ct] rb by (auto split: if_splits)
  show ?thesis
  proof (cases y)
    case None
    with rb assms(4) have "after_fetch res = (evs, False)"
      by (simp add: after_fetch_thrown)
    with assms evs show ?thesis
      by (simp add: sendWebhook_resolved catch_block_def)
  next
    case (Some p)
    obtain d fname where p: "p = (d, fname)" by (cases p) auto
    from rb Some p assms(4) have af: "after_fetch res =
     (evs @
      [SetResponse
         \<lparr>status = res_status res, data = d,
          headers = collect_headers (res_headers_forEach res),
          isFile = isFile_of ct, fileName = fname, contentType = ct\<rparr>,
       ToastEv (success_toast (res_status res))],
      True)"
      by (simp add: after_fetch_body)
    from assms(5) have "r = \<lparr>status = res_status res, data = d,
          headers = collect_headers (res_headers_forEach res),
          isFile = isFile_of ct, fileName = fname, contentType = ct\<rparr>"
      using evs by (simp add: sendWebhook_resolved[where fetch = fetch, OF assms(1,2,3)] af)
    with rb Some p show ?thesis by simp
  qed
qed

lemma state_after_invalid:
  assumes "webhookUrl s = [] \<or> selectedFile s = None"
  shows "state_after fetch s = s"
  by (simp add: state_after_def sendWebhook_invalid[where fetch = fetch, OF assms])

lemma state_after_rejected:
  assumes "webhookUrl s \<noteq> []" and "selectedFile s = Some file"
    and "fetch (webhookUrl s) [(''file'', file)] = None"
  shows "state_after fetch s = s\<lparr>isLoading := False\<rparr>"
  by (simp add: state_after_def sendWebhook_rejected[where fetch = fetch, OF assms])

lemma foldl_apply_readers:
  "foldl apply_event s (fst (read_body res ct)) = s"
  by (simp add: read_body_readers)

lemma state_after_resolved:
  assumes "webhookUrl s \<noteq> []" and "selectedFile s = Some file"
    and "fetch (webhookUrl s) [(''file'', file)] = Some res"
    and "ct = contentType_of (res_headers_get res ''content-type'')"
  shows "state_after fetch s =
     (case snd (read_body res ct) of
        None \<Rightarrow> s\<lparr>isLoading := False\<rparr>
      | Some (d, fname) \<Rightarrow>
          s\<lparr>isLoading := False,
            response := Some \<lparr>status = res_status res, data = d,
              headers = collect_headers (res_headers_forEach res),
              isFile = isFile_of ct, fileName = fname, contentType = ct\<rparr>\<rparr>)"
proof -
  obtain evs y where rb: "read_body res ct = (evs, y)"
    by (cases "read_body res ct") auto
  have evs: "foldl apply_event s' evs = s'" for s'
    using foldl_apply_readers[of s' res ct] rb by simp
  show ?thesis
  proof (cases y)
    case None
    with rb assms(4) have "after_fetch res = (evs, False)"
      by (simp add: after_fetch_thrown)
    with rb None show ?thesis
      by (simp add: state_after_def sendWebhook_resolved[where fetch = fetch, OF assms(1,2,3)] catch_block_def evs)
  next
    case (Some p)
    obtain d fname where p: "p = (d, fname)" by (cases p) auto
    from rb Some p assms(4) have af: "after_fetch res =
     (evs @
      [SetResponse
         \<lparr>status = res_status res, data = d,
          headers = collect_headers (res_headers_forEach res),
          isFile = isFile_of ct, fileName = fname, contentType = ct\<rparr>,
       ToastEv (success_toast (res_status res))],
      True)"
      by (simp add: after_fetch_body)
    with rb Some p show ?thesis
      by (simp add: state_after_def sendWebhook_resolved[where fetch = fetch, OF assms(1,2,3)] evs)
  qed
qed

lemmas fixture_defs = file0_def state0_def state_no_url_def fetch_resolves_def fetch_rejects_def
  res_pdf_def res_pdf_plain_def res_related_def res_bad_json_def res_no_type_def state_shown_def

lemma sendWebhook_trace:
  assumes "webhookUrl s \<noteq> []" and "selectedFile s = Some file"
    and "fetch (webhookUrl s) [(''file'', file)] = Some res"
    and "ct = contentType_of (res_headers_get res ''content-type'')"
  shows "sendWebhook fetch s =
     [SetIsLoading True, FetchEv (webhookUrl s) [(''file'', file)]] @ fst (read_body res ct) @
     (case snd (read_body res ct) of
        None \<Rightarrow> catch_block
      | Some (d, fname) \<Rightarrow>
          [SetResponse
             \<lparr>status = res_status res, data = d,
              headers = collect_headers (res_headers_forEach res),
              isFile = isFile_of ct, fileName = fname, contentType = ct\<rparr>,
           ToastEv (success_toast (res_status res))]) @
     [SetIsLoading False]"
proof -
  obtain evs y where rb: "read_body res ct = (evs, y)"
    by (cases "read_body res ct") auto
  show ?thesis
  proof (cases y)
    case None
    with rb assms(4) have "after_fetch res = (evs, False)"
      by (simp add: after_fetch_thrown)
    with rb None show ?thesis
      by (simp add: sendWebhook_resolved[where fetch = fetch, OF assms(1,2,3)])
  next
    case (Some p)
    obtain d fname where p: "p = (d, fname)" by (cases p) auto
    from rb Some p assms(4) have "after_fetch res =
     (evs @
      [SetResponse
         \<lparr>status = res_status res, data = d,
          headers = collect_headers (res_headers_forEach res),
          isFile = isFile_of ct, fileName = fname, contentType = ct\<rparr>,
       ToastEv (success_toast (res_status res))],
      True)"
      by (simp add: after_fetch_body)
    with rb Some p show ?thesis
      by (simp add: sendWebhook_resolved[where fetch = fetch, OF assms(1,2,3)])
  qed
qed

lemma readers_of_run:
  assumes "webhookUrl s \<noteq> []" and "selectedFile s = Some file"
    and "fetch (webhookUrl s) [(''file'', file)] = Some res"
    and "ct = contentType_of (res_headers_get res ''content-type'')"
  shows "(ReadBlob \<in> set (sendWebhook fetch s) \<longleftrightarrow> isFile_of ct)"
    and "(ReadJson \<in> set (sendWebhook fetch s) \<longleftrightarrow> \<not> isFile_of ct \<and> includes_str ct ''json'')"
    and "(ReadText \<in> set (sendWebhook fetch s) \<longleftrightarrow> \<not> isFile_of ct \<and> \<not> includes_str ct ''json'')"
  by (auto simp: sendWebhook_trace[where fetch = fetch, OF assms] read_body_readers catch_block_def
           split: option.splits)

section \<open>Classification of the response body\<close>

text \<open>
  Claim C1, as the code has it. For a submission that passes validation and whose
  \<open>fetch\<close> resolves, the body is read as a blob exactly when the declared content type
  contains \<open>application/\<close> somewhere (not only at its start) and contains neither
  \<open>json\<close> nor \<open>text\<close>. When it is read as a blob, neither \<open>res.json()\<close> nor
  \<open>res.text()\<close> is called. Every stored result has \<open>isFile\<close> set exactly under that
  condition, and \<open>isFile\<close> holds exactly when \<open>data\<close> is the blob; and when the blob
  is read, such a result is stored.
\<close>

theorem binary_iff_includes:
  assumes "webhookUrl s \<noteq> []" and "selectedFile s = Some file"
    and "fetch (webhookUrl s) [(''file'', file)] = Some res"
    and "ct = contentType_of (res_headers_get res ''content-type'')"
  shows "(ReadBlob \<in> set (sendWebhook fetch s) \<longleftrightarrow>
        includes_str ct ''application/'' \<and> \<not> includes_str ct ''json'' \<and>
        \<not> includes_str ct ''text'') \<and>
     (ReadBlob \<in> set (sendWebhook fetch s) \<longrightarrow>
        ReadJson \<notin> set (sendWebhook fetch s) \<and> ReadText \<notin> set (sendWebhook fetch s)) \<and>
     (\<forall>r. SetResponse r \<in> set (sendWebhook fetch s) \<longrightarrow>
        (isFile r \<longleftrightarrow>
           includes_str ct ''application/'' \<and> \<not> includes_str ct ''json'' \<and>
           \<not> includes_str ct ''text'') \<and>
        (isFile r \<longleftrightarrow> (\<exists>b. res_blob res = Some b \<and> data r = DBlob b))) \<and>
     (\<forall>b. includes_str ct ''application/'' \<and> \<not> includes_str ct ''json'' \<and>
          \<not> includes_str ct ''text'' \<and> res_blob res = Some b \<longrightarrow>
        (\<exists>r. SetResponse r \<in> set (sendWebhook fetch s) \<and> isFile r \<and> data r = DBlob b))"
proof -
  have bin: "isFile_of ct \<longleftrightarrow>
      includes_str ct ''application/'' \<and> \<not> includes_str ct ''json'' \<and> \<not> includes_str ct ''text''"
    by (simp add: isFile_of_def)
  have stored: "(isFile r \<longleftrightarrow> isFile_of ct) \<and>
      (isFile r \<longleftrightarrow> (\<exists>b. res_blob res = Some b \<and> data r = DBlob b))"
    if "SetResponse r \<in> set (sendWebhook fetch s)" for r
  proof -
    from stored_result[where fetch = fetch, OF assms that]
    have rb: "snd (read_body res ct) = Some (data r, fileName r)"
      and req: "r = \<lparr>status = res_status res, data = data r,
          headers = collect_headers (res_headers_forEach res),
          isFile = isFile_of ct, fileName = fileName r, contentType = ct\<rparr>"
      by blast+
    have f: "isFile r = isFile_of ct"
      by (subst req) simp
    from rb f show ?thesis
      by (auto simp: read_body_result split: if_splits)
  qed
  have ex: "\<exists>r. SetResponse r \<in> set (sendWebhook fetch s) \<and> isFile r \<and> data r = DBlob b"
    if "isFile_of ct" and "res_blob res = Some b" for b
    using that
    by (simp add: sendWebhook_trace[where fetch = fetch, OF assms] read_body_result
          read_body_readers)
  show ?thesis
    using readers_of_run[where fetch = fetch, OF assms] stored bin ex by blast
qed

text \<open>
  The run on a response of type \<open>application/pdf\<close> with a \<open>content-disposition\<close>
  header: the body is read as a blob only.
\<close>

theorem binary_iff_includes_witness:
  "webhookUrl state0 \<noteq> [] \<and> selectedFile state0 = Some file0 \<and>
   fetch_resolves res_pdf (webhookUrl state0) [(''file'', file0)] = Some res_pdf \<and>
   contentType_of (res_headers_get res_pdf ''content-type'') = ''application/pdf'' \<and>
   ReadBlob \<in> set (sendWebhook (fetch_resolves res_pdf) state0) \<and>
   ReadJson \<notin> set (sendWebhook (fetch_resolves res_pdf) state0) \<and>
   ReadText \<notin> set (sendWebhook (fetch_resolves res_pdf) state0)"
proof -
  have h1: "webhookUrl state0 \<noteq> []" by (simp add: state0_def)
  have h2: "selectedFile state0 = Some file0" by (simp add: state0_def)
  have h3: "fetch_resolves res_pdf (webhookUrl state0) [(''file'', file0)] = Some res_pdf"
    by (simp add: fetch_resolves_def)
  have h4: "''application/pdf'' = contentType_of (res_headers_get res_pdf ''content-type'')"
    by (simp add: contentType_of_def res_pdf_def)
  have inc: "includes_str ''application/pdf'' ''application/'' \<and>
      \<not> includes_str ''application/pdf'' ''json'' \<and> \<not> includes_str ''application/pdf'' ''text''"
    by simp
  show ?thesis
    using binary_iff_includes[where fetch = "fetch_resolves res_pdf", OF h1 h2 h3 h4]
      h1 h2 h3 h4[symmetric] inc by blast
qed

text \<open>
  Claim C1 as the specification words it (the content type \<^emph>\<open>starts with\<close> the
  prefix) fails: \<open>multipart/related; type=application/pdf\<close> does not start with
  \<open>application/\<close>, and the handler reads its body as a blob and stores \<open>isFile = true\<close>.
\<close>

theorem binary_needs_no_prefix_counterexample:
  "\<not> prefix ''application/'' (contentType_of (res_headers_get res_related ''content-type'')) \<and>
   ReadBlob \<in> set (sendWebhook (fetch_resolves res_related) state0) \<and>
   map_option isFile (response (state_after (fetch_resolves res_related) state0)) = Some True \<and>
   map_option data (response (state_after (fetch_resolves res_related) state0)) =
     Some (DBlob ''--b--'')"
  by (simp add: state_after_def sendWebhook_def after_fetch_def read_body_def isFile_of_def
        contentType_of_def fileName_of_def fixture_defs Let_def)

text \<open>
  Claim C2. For a submission that passes validation and whose \<open>fetch\<close> resolves with a
  content type that contains \<open>json\<close>, the body is read with \<open>res.json()\<close> and with no
  other reader. When that promise rejects (the body is not valid JSON) the run is: loading
  on, the request, the reader, the destructive toast \<open>Falha ao enviar webhook\<close>,
  \<open>console.error\<close>, loading off; no result is stored and the state is the one before
  but for the loading flag. When it resolves to \<open>j\<close>, the result stored has
  \<open>data = j\<close> and \<open>isFile = false\<close>.
\<close>

theorem json_parsed_or_reported:
  assumes "webhookUrl s \<noteq> []" and "selectedFile s = Some file"
    and "fetch (webhookUrl s) [(''file'', file)] = Some res"
    and "ct = contentType_of (res_headers_get res ''content-type'')"
    and "includes_str ct ''json''"
  shows "ReadJson \<in> set (sendWebhook fetch s) \<and> ReadText \<notin> set (sendWebhook fetch s) \<and>
     ReadBlob \<notin> set (sendWebhook fetch s) \<and>
     (res_json res = None \<longrightarrow>
        sendWebhook fetch s =
          [SetIsLoading True, FetchEv (webhookUrl s) [(''file'', file)], ReadJson,
           ToastEv error_toast, ConsoleError, SetIsLoading False] \<and>
        (\<forall>r. SetResponse r \<notin> set (sendWebhook fetch s)) \<and>
        state_after fetch s = s\<lparr>isLoading := False\<rparr>) \<and>
     (\<forall>j. res_json res = Some j \<longrightarrow>
        sendWebhook fetch s =
          [SetIsLoading True, FetchEv (webhookUrl s) [(''file'', file)], ReadJson,
           SetResponse
             \<lparr>status = res_status res, data = DJson j,
              headers = collect_headers (res_headers_forEach res),
              isFile = False, fileName = [], contentType = ct\<rparr>,
           ToastEv (success_toast (res_status res)), SetIsLoading False])"
proof -
  note v = assms(1,2,3,4)
  have nf: "\<not> isFile_of ct"
    using assms(5) by (simp add: isFile_of_def)
  have readers: "fst (read_body res ct) = [ReadJson]"
    using nf assms(5) by (simp add: read_body_readers)
  have result: "snd (read_body res ct) = map_option (\<lambda>j. (DJson j, [])) (res_json res)"
    using nf assms(5) by (simp add: read_body_result)
  have tr: "sendWebhook fetch s =
     [SetIsLoading True, FetchEv (webhookUrl s) [(''file'', file)], ReadJson] @
     (case res_json res of
        None \<Rightarrow> catch_block
      | Some j \<Rightarrow>
          [SetResponse
             \<lparr>status = res_status res, data = DJson j,
              headers = collect_headers (res_headers_forEach res),
              isFile = False, fileName = [], contentType = ct\<rparr>,
           ToastEv (success_toast (res_status res))]) @
     [SetIsLoading False]"
    using nf by (simp add: sendWebhook_trace[where fetch = fetch, OF v] readers result
                      split: option.splits)
  have st: "res_json res = None \<Longrightarrow> state_after fetch s = s\<lparr>isLoading := False\<rparr>"
    by (simp add: state_after_resolved[where fetch = fetch, OF v] result)
  from tr st show ?thesis
    by (auto simp: catch_block_def split: option.splits)
qed

text \<open>
  The run on a response of type \<open>application/json\<close> whose body does not parse: the
  failure is reported and the state is unchanged.
\<close>

theorem json_parsed_or_reported_witness:
  "webhookUrl state0 \<noteq> [] \<and> selectedFile state0 = Some file0 \<and>
   fetch_resolves res_bad_json (webhookUrl state0) [(''file'', file0)] = Some res_bad_json \<and>
   includes_str (contentType_of (res_headers_get res_bad_json ''content-type'')) ''json'' \<and>
   res_json res_bad_json = None \<and>
   sendWebhook (fetch_resolves res_bad_json) state0 =
     [SetIsLoading True, FetchEv (webhookUrl state0) [(''file'', file0)], ReadJson,
      ToastEv error_toast, ConsoleError, SetIsLoading False] \<and>
   state_after (fetch_resolves res_bad_json) state0 = state0"
proof -
  have h1: "webhookUrl state0 \<noteq> []" by (simp add: state0_def)
  have h2: "selectedFile state0 = Some file0" by (simp add: state0_def)
  have h3: "fetch_resolves res_bad_json (webhookUrl state0) [(''file'', file0)] = Some res_bad_json"
    by (simp add: fetch_resolves_def)
  have h4: "contentType_of (res_headers_get res_bad_json ''content-type'') = ''application/json''"
    by (simp add: contentType_of_def res_bad_json_def)
  have h5: "includes_str (contentType_of (res_headers_get res_bad_json ''content-type'')) ''json''"
    by (simp add: h4)
  have h6: "res_json res_bad_json = None" by (simp add: res_bad_json_def)
  have l: "state0\<lparr>isLoading := False\<rparr> = state0" by (simp add: state0_def)
  show ?thesis
    using json_parsed_or_reported[where fetch = "fetch_resolves res_bad_json", OF h1 h2 h3 refl h5]
      h1 h2 h3 h5 h6 l by simp
qed

text \<open>
  Claim C9. For a submission that passes validation and whose \<open>fetch\<close> resolves to a
  response without a \<open>content-type\<close> header, the body is read with \<open>res.text()\<close> and
  with no other reader, and when that resolves to \<open>t\<close> the result stored has
  \<open>data = t\<close>, unchanged, \<open>isFile = false\<close> and the empty string as content type.
\<close>

theorem no_content_type_is_text:
  assumes "webhookUrl s \<noteq> []" and "selectedFile s = Some file"
    and "fetch (webhookUrl s) [(''file'', file)] = Some res"
    and "res_headers_get res ''content-type'' = None"
  shows "ReadText \<in> set (sendWebhook fetch s) \<and> ReadBlob \<notin> set (sendWebhook fetch s) \<and>
     ReadJson \<notin> set (sendWebhook fetch s) \<and>
     (\<forall>t. res_text res = Some t \<longrightarrow>
        sendWebhook fetch s =
          [SetIsLoading True, FetchEv (webhookUrl s) [(''file'', file)], ReadText,
           SetResponse
             \<lparr>status = res_status res, data = DText t,
              headers = collect_headers (res_headers_forEach res),
              isFile = False, fileName = [], contentType = []\<rparr>,
           ToastEv (success_toast (res_status res)), SetIsLoading False])"
proof -
  have ct: "[] = contentType_of (res_headers_get res ''content-type'')"
    using assms(4) by (simp add: contentType_of_def)
  note v = assms(1,2,3) ct
  have nf: "\<not> isFile_of []" and nj: "\<not> includes_str [] ''json''"
    by (simp_all add: isFile_of_def)
  have readers: "fst (read_body res []) = [ReadText]"
    using nf nj by (simp add: read_body_readers)
  have result: "snd (read_body res []) = map_option (\<lambda>t. (DText t, [])) (res_text res)"
    using nf nj by (simp add: read_body_result)
  have tr: "sendWebhook fetch s =
     [SetIsLoading True, FetchEv (webhookUrl s) [(''file'', file)], ReadText] @
     (case res_text res of
        None \<Rightarrow> catch_block
      | Some t \<Rightarrow>
          [SetResponse
             \<lparr>status = res_status res, data = DText t,
              headers = collect_headers (res_headers_forEach res),
              isFile = False, fileName = [], contentType = []\<rparr>,
           ToastEv (success_toast (res_status res))]) @
     [SetIsLoading False]"
    using nf by (simp add: sendWebhook_trace[where fetch = fetch, OF v] readers result
                      split: option.splits)
  from tr show ?thesis
    by (auto simp: catch_block_def split: option.splits)
qed

text \<open>
  The run on a response without headers, status 204 and body text \<open>hello\<close>.
\<close>

theorem no_content_type_is_text_witness:
  "webhookUrl state0 \<noteq> [] \<and> selectedFile state0 = Some file0 \<and>
   fetch_resolves res_no_type (webhookUrl state0) [(''file'', file0)] = Some res_no_type \<and>
   res_headers_get res_no_type ''content-type'' = None \<and>
   res_text res_no_type = Some ''hello'' \<and>
   sendWebhook (fetch_resolves res_no_type) state0 =
     [SetIsLoading True, FetchEv (webhookUrl state0) [(''file'', file0)], ReadText,
      SetResponse
        \<lparr>status = res_status res_no_type, data = DText ''hello'',
         headers = collect_headers (res_headers_forEach res_no_type),
         isFile = False, fileName = [], contentType = []\<rparr>,
      ToastEv (success_toast (res_status res_no_type)), SetIsLoading False]"
proof -
  have h1: "webhookUrl state0 \<noteq> []" by (simp add: state0_def)
  have h2: "selectedFile state0 = Some file0" by (simp add: state0_def)
  have h3: "fetch_resolves res_no_type (webhookUrl state0) [(''file'', file0)] = Some res_no_type"
    by (simp add: fetch_resolves_def)
  have h4: "res_headers_get res_no_type ''content-type'' = None" by (simp add: res_no_type_def)
  have h5: "res_text res_no_type = Some ''hello''" by (simp add: res_no_type_def)
  show ?thesis
    using no_content_type_is_text[where fetch = "fetch_resolves res_no_type", OF h1 h2 h3 h4]
      h1 h2 h3 h4 h5 by simp
qed

section \<open>The suggested file name\<close>




section \<open>Validation and network failure\<close>

text \<open>
  Claim C4. When the URL is empty or no file is selected, the only effect of the
  handler is the validation toast: no \<open>fetch\<close>, no \<open>setIsLoading(true)\<close>, and the
  state is left as it was. The toast is called before the handler reaches any \<open>await\<close>.
\<close>

theorem validation_fails_fast:
  assumes "webhookUrl s = [] \<or> selectedFile s = None"
  shows "sendWebhook fetch s = [ToastEv validation_toast] \<and>
     FetchEv url formData \<notin> set (sendWebhook fetch s) \<and>
     SetIsLoading True \<notin> set (sendWebhook fetch s) \<and>
     state_after fetch s = s"
  using assms by (simp add: sendWebhook_invalid state_after_invalid)

text \<open>
  A submission with an empty URL, against a platform whose \<open>fetch\<close> would resolve.
\<close>

theorem validation_fails_fast_witness:
  "webhookUrl state_no_url = [] \<and>
   sendWebhook (fetch_resolves res_pdf) state_no_url = [ToastEv validation_toast] \<and>
   FetchEv [] [(''file'', file0)] \<notin> set (sendWebhook (fetch_resolves res_pdf) state_no_url) \<and>
   SetIsLoading True \<notin> set (sendWebhook (fetch_resolves res_pdf) state_no_url) \<and>
   state_after (fetch_resolves res_pdf) state_no_url = state_no_url"
proof -
  have h: "webhookUrl state_no_url = [] \<or> selectedFile state_no_url = None"
    by (simp add: state_no_url_def)
  have u: "webhookUrl state_no_url = []"
    by (simp add: state_no_url_def)
  show ?thesis
    using validation_fails_fast[where fetch = "fetch_resolves res_pdf", OF h] u by simp
qed

text \<open>
  Claim C5, as the code has it. When the submission passes validation and \<open>fetch\<close>
  rejects, the run is: loading on, the request, the destructive toast
  \<open>Falha ao enviar webhook\<close>, \<open>console.error\<close>, loading off. No result is stored, and
  the state after the run is the state before it with the loading flag off: the handler
  does not clear \<open>response\<close>, so the result of an earlier submission, if there is one,
  stays.
\<close>

theorem network_failure:
  assumes "webhookUrl s \<noteq> []" and "selectedFile s = Some file"
    and "fetch (webhookUrl s) [(''file'', file)] = None"
  shows "sendWebhook fetch s =
       [SetIsLoading True, FetchEv (webhookUrl s) [(''file'', file)],
        ToastEv error_toast, ConsoleError, SetIsLoading False] \<and>
     SetResponse r \<notin> set (sendWebhook fetch s) \<and>
     state_after fetch s = s\<lparr>isLoading := False\<rparr>"
  using assms by (simp add: sendWebhook_rejected state_after_rejected)

text \<open>
  A submission from the initial state whose \<open>fetch\<close> rejects.
\<close>

theorem network_failure_witness:
  "webhookUrl state0 \<noteq> [] \<and> selectedFile state0 = Some file0 \<and>
   fetch_rejects (webhookUrl state0) [(''file'', file0)] = None \<and>
   sendWebhook fetch_rejects state0 =
       [SetIsLoading True, FetchEv ''https://example.org/hook'' [(''file'', file0)],
        ToastEv error_toast, ConsoleError, SetIsLoading False] \<and>
   state_after fetch_rejects state0 = state0"
proof -
  have h1: "webhookUrl state0 \<noteq> []" by (simp add: state0_def)
  have h2: "selectedFile state0 = Some file0" by (simp add: state0_def)
  have h3: "fetch_rejects (webhookUrl state0) [(''file'', file0)] = None"
    by (simp add: fetch_rejects_def)
  have u: "webhookUrl state0 = ''https://example.org/hook''" by (simp add: state0_def)
  have l: "state0\<lparr>isLoading := False\<rparr> = state0" by (simp add: state0_def)
  show ?thesis
    using network_failure[where fetch = fetch_rejects, OF h1 h2 h3] h1 h2 h3 u l by simp
qed

text \<open>
  Claim C5 as the specification words it (no result is shown after the failure) fails
  when a result of an earlier submission is shown: after a rejected \<open>fetch\<close> that result
  is still in \<open>response\<close>.
\<close>

theorem network_failure_keeps_result_counterexample:
  "webhookUrl state_shown \<noteq> [] \<and> selectedFile state_shown = Some file0 \<and>
   fetch_rejects (webhookUrl state_shown) [(''file'', file0)] = None \<and>
   map_option data (response (state_after fetch_rejects state_shown)) = Some (DText ''earlier'')"
  by (simp add: state_after_def sendWebhook_def catch_block_def fixture_defs)




section \<open>The header mapping\<close>

text \<open>
  Claim C6, as the code has it. For a submission that passes validation and whose
  \<open>fetch\<close> resolves, every result \<open>r\<close> the handler stores has as keys of \<open>headers\<close>,
  the name \<open>__proto__\<close> left aside, exactly the names that \<open>res.headers.forEach\<close>
  passes to the callback, each spelled as it was passed; and a name other than
  \<open>__proto__\<close> maps to the value passed with its last occurrence.
\<close>

theorem headers_collected:
  assumes "webhookUrl s \<noteq> []" and "selectedFile s = Some file"
    and "fetch (webhookUrl s) [(''file'', file)] = Some res"
    and "SetResponse r \<in> set (sendWebhook fetch s)"
  shows "dom (headers r) - {''__proto__''} =
       fst ` set (res_headers_forEach res) - {''__proto__''} \<and>
     (\<forall>xs k v ys.
        res_headers_forEach res = xs @ [(k, v)] @ ys \<and> k \<notin> fst ` set ys \<and>
        k \<noteq> ''__proto__'' \<longrightarrow>
        headers r k = Some v)"
proof -
  from stored_result[where fetch = fetch, OF assms(1,2,3) refl assms(4)]
  obtain d fname ct where "r =
      \<lparr>status = res_status res, data = d,
       headers = collect_headers (res_headers_forEach res),
       isFile = isFile_of ct, fileName = fname, contentType = ct\<rparr>"
    by blast
  then have h: "headers r = collect_headers (res_headers_forEach res)"
    by simp
  have keys: "dom (collect_headers (res_headers_forEach res)) - {''__proto__''} =
      fst ` set (res_headers_forEach res) - {''__proto__''}"
    by (simp add: dom_collect_headers)
  show ?thesis
    unfolding h using collect_headers_last keys by blast
qed

text \<open>
  The run on the response of type \<open>application/pdf\<close>: the result stored maps
  \<open>content-type\<close> to \<open>application/pdf\<close>.
\<close>

theorem headers_collected_witness:
  "webhookUrl state0 \<noteq> [] \<and> selectedFile state0 = Some file0 \<and>
   fetch_resolves res_pdf (webhookUrl state0) [(''file'', file0)] = Some res_pdf \<and>
   SetResponse result_pdf \<in> set (sendWebhook (fetch_resolves res_pdf) state0) \<and>
   res_headers_forEach res_pdf =
     [(''content-disposition'', ''attachment; filename='' @ [dquote] @ ''report.pdf'' @ [dquote])] @
     [(''content-type'', ''application/pdf'')] @ [] \<and>
   headers result_pdf ''content-type'' = Some ''application/pdf''"
proof -
  have h1: "webhookUrl state0 \<noteq> []" by (simp add: state0_def)
  have h2: "selectedFile state0 = Some file0" by (simp add: state0_def)
  have h3: "fetch_resolves res_pdf (webhookUrl state0) [(''file'', file0)] = Some res_pdf"
    by (simp add: fetch_resolves_def)
  have t: "contentType_of (res_headers_get res_pdf ''content-type'') = ''application/pdf''"
    by (simp add: contentType_of_def res_pdf_def)
  have bin: "isFile_of ''application/pdf''"
    by (simp add: isFile_of_def)
  have fname: "fileName_of (res_headers_get res_pdf ''content-disposition'') = ''report.pdf''"
    by (simp add: fileName_of_def res_pdf_def match_here_def after_literal_def group1_def
          dquote_def)
  have b: "res_blob res_pdf = Some ''%PDF-1.7''" and st: "res_status res_pdf = 200"
    by (simp_all add: res_pdf_def)
  have h4: "SetResponse result_pdf \<in> set (sendWebhook (fetch_resolves res_pdf) state0)"
    by (simp add: sendWebhook_trace[where fetch = "fetch_resolves res_pdf", OF h1 h2 h3 refl]
          t bin fname b st read_body_result read_body_readers result_pdf_def)
  have l: "res_headers_forEach res_pdf =
     [(''content-disposition'', ''attachment; filename='' @ [dquote] @ ''report.pdf'' @ [dquote])] @
     [(''content-type'', ''application/pdf'')] @ []"
    by (simp add: res_pdf_def)
  have side: "''content-type'' \<notin> fst ` set ([] :: (string \<times> string) list)"
      "''content-type'' \<noteq> ''__proto__''"
    by simp_all
  from headers_collected[where fetch = "fetch_resolves res_pdf", OF h1 h2 h3 h4]
  have all: "\<forall>xs k v ys.
        res_headers_forEach res_pdf = xs @ [(k, v)] @ ys \<and> k \<notin> fst ` set ys \<and>
        k \<noteq> ''__proto__'' \<longrightarrow>
        headers result_pdf k = Some v"
    by (rule conjunct2)
  have "headers result_pdf ''content-type'' = Some ''application/pdf''"
    by (rule all[rule_format]) (use l side in blast)
  with h1 h2 h3 h4 l show ?thesis
    by (simp only: simp_thms)
qed

text \<open>
  Claim C6 as the specification words it (keys are case-insensitive) fails: the result
  stored for a response whose header iteration yields \<open>content-type\<close> has that header
  under \<open>content-type\<close> and nothing under \<open>Content-Type\<close>, the same name up to case.
\<close>

theorem headers_case_sensitive_counterexample:
  "same_name ''Content-Type'' ''content-type'' \<and>
   res_headers_forEach res_pdf_plain = [(''content-type'', ''application/pdf'')] \<and>
   response (state_after (fetch_resolves res_pdf_plain) state0) \<noteq> None \<and>
   shown_header (state_after (fetch_resolves res_pdf_plain) state0) ''content-type'' =
     Some ''application/pdf'' \<and>
   shown_header (state_after (fetch_resolves res_pdf_plain) state0) ''Content-Type'' = None"
  by (simp add: same_name_def ascii_lower_def shown_header_def state_after_def sendWebhook_def
        after_fetch_def read_body_def isFile_of_def contentType_of_def fileName_of_def
        collect_headers_def set_header_def fixture_defs Let_def)

section \<open>Formatting of file sizes\<close>

text \<open>
  Claim C8. \<open>formatFileSize\<close> gives \<open>0 Bytes\<close> for 0, \<open>1 KB\<close> for 1024, \<open>1.5 KB\<close> for
  1536 and \<open>1 MB\<close> for 1048576.
\<close>

theorem formatFileSize_examples:
  "formatFileSize 0 = ''0 Bytes'' \<and> formatFileSize 1024 = ''1 KB'' \<and>
   formatFileSize 1536 = ''1.5 KB'' \<and> formatFileSize 1048576 = ''1 MB''"
proof -
  have i1: "nat \<lfloor>ln (real 1024) / ln 1024\<rfloor> = 1"
    by (rule floor_log_1024) simp_all
  have i2: "nat \<lfloor>ln (real 1536) / ln 1024\<rfloor> = 1"
    by (rule floor_log_1024) simp_all
  have i3: "nat \<lfloor>ln (real 1048576) / ln 1024\<rfloor> = 2"
    by (rule floor_log_1024) (simp_all add: numeral_2_eq_2)
  have f1: "toFixed2 1 = ''1.00''" and f2: "toFixed2 (3 / 2) = ''1.50''"
    by (simp_all add: toFixed2_def show_nat.simps digit_char_def)
  have p1: "parseFloat ''1.00'' = 1" and p2: "parseFloat ''1.50'' = 3 / 2"
    by (simp_all add: parseFloat_def digits_val_def digit_val_def is_dot_def)
  have n1: "number_to_string 1 = ''1''" and n2: "number_to_string (3 / 2) = ''1.5''"
    by (simp_all add: number_to_string_def show_nat.simps digit_char_def)
  have a: "formatFileSize 0 = ''0 Bytes''"
    by (simp add: formatFileSize_def)
  have b: "formatFileSize 1024 = ''1 KB''"
    unfolding formatFileSize_def Let_def i1 by (simp add: f1 p1 n1 sizes_def)
  have c: "formatFileSize 1536 = ''1.5 KB''"
    unfolding formatFileSize_def Let_def i2 by (simp add: f2 p2 n2 sizes_def)
  have d: "formatFileSize 1048576 = ''1 MB''"
    unfolding formatFileSize_def Let_def i3 by (simp add: f1 p1 n1 sizes_def)
  from a b c d show ?thesis
    by blast
qed

end
